theory Spec2Isabelle
  imports Complex_Main
begin

section \<open>The drying simulator of \<^verbatim>\<open>app_industrial.py\<close>\<close>

text \<open>
  The numbers of the program are Python and NumPy floats. They are embedded as the real
  numbers: rounding, overflow and the infinities are not represented. So a property
  that depends on the rounding of a double (how the results at two neighbouring
  doubles compare) cannot be stated here, and the \<^verbatim>\<open>OverflowError\<close> that Python's
  \<^verbatim>\<open>**\<close> raises when a power exceeds the range of the doubles has no counterpart: the
  properties about results are stated for parameters in bounded ranges, where no power
  overflows. The two places where the program leaves the real numbers for small
  arguments are written out as \<open>option\<close> values: a fractional power of a negative
  base (\<open>py_pow\<close>), and the mean and the maximum of an empty column, which pandas
  returns as NaN (\<open>series_mean\<close>, \<open>series_max\<close>).
\<close>

subsection \<open>Data\<close>

text \<open>
  The dictionary \<^verbatim>\<open>params\<close> has a fixed set of keys, one per sidebar widget
  (lines 165-173). The sliders deliver Python numbers; only \<^verbatim>\<open>num_lineas\<close> is used
  as an integer (in \<^verbatim>\<open>range\<close>).
\<close>

record params =
  peso_humedo :: real
  espesor :: real
  temperatura :: real
  velocidad_aire :: real
  tiempo_residencia :: real
  humedad_aire :: real
  num_lineas :: int

text \<open>
  The data frame returned by the simulation has two columns of equal length: the label
  column, whose entry \<^verbatim>\<open>f'Linea {i+1}'\<close> is represented by the number \<open>i + 1\<close> it prints,
  and the column \<^verbatim>\<open>'Humedad Residual (%)'\<close>.
\<close>

record dataframe =
  linea :: "int list"
  humedad_residual :: "real list"

record kpis =
  humedad_promedio :: "real option"
  costo_energetico :: real
  tasa_evaporacion :: "real option"
  riesgo_calidad :: string

datatype py_error = ZeroDivisionError

text \<open>The bounds of the sidebar widgets (lines 153-163): the documented domains.\<close>

definition valid_params :: "params \<Rightarrow> bool" where
  "valid_params p =
     (200 \<le> peso_humedo p \<and> peso_humedo p \<le> 300 \<and>
      2 \<le> espesor p \<and> espesor p \<le> 5 \<and>
      80 \<le> temperatura p \<and> temperatura p \<le> 180 \<and>
      1 / 2 \<le> velocidad_aire p \<and> velocidad_aire p \<le> 3 \<and>
      5 \<le> tiempo_residencia p \<and> tiempo_residencia p \<le> 20 \<and>
      10 \<le> humedad_aire p \<and> humedad_aire p \<le> 80 \<and>
      2 \<le> num_lineas p \<and> num_lineas p \<le> 12)"

subsection \<open>Python primitives\<close>

text \<open>\<^verbatim>\<open>range(n)\<close>: the integers \<open>0, ..., n - 1\<close>; empty when \<open>n \<le> 0\<close>.\<close>

definition py_range :: "int \<Rightarrow> int list" where
  "py_range n = [0..n - 1]"

text \<open>
  \<^verbatim>\<open>x ** y\<close> for a fractional exponent \<open>y\<close>. A negative base gives a complex number
  in Python (NaN for a NumPy scalar): \<open>None\<close>. Python has \<^verbatim>\<open>0.0 ** y == 0.0\<close> for
  positive \<open>y\<close>, as \<open>powr\<close> has. For a base so large that the power exceeds the
  largest double, Python raises \<^verbatim>\<open>OverflowError\<close>; the real numbers have no such
  bound, and this case is not represented.
\<close>

definition py_pow :: "real \<Rightarrow> real \<Rightarrow> real option" where
  "py_pow x y = (if x < 0 then None else Some (x powr y))"

text \<open>
  \<^verbatim>\<open>Series.mean()\<close> and \<^verbatim>\<open>Series.max()\<close>; pandas returns NaN for an empty
  column: \<open>None\<close>.
\<close>

definition series_mean :: "real list \<Rightarrow> real option" where
  "series_mean xs = (if xs = [] then None else Some (sum_list xs / real (length xs)))"

definition series_max :: "real list \<Rightarrow> real option" where
  "series_max xs = (case xs of [] \<Rightarrow> None | x # ys \<Rightarrow> Some (fold max ys x))"

text \<open>\<^verbatim>\<open>v > c\<close> where \<open>v\<close> may be NaN: every comparison with NaN is false.\<close>

definition nan_gt :: "real option \<Rightarrow> real \<Rightarrow> bool" where
  "nan_gt v c = (case v of None \<Rightarrow> False | Some x \<Rightarrow> x > c)"

subsection \<open>\<^verbatim>\<open>run_industrial_simulation\<close> (lines 45-101)\<close>

definition DRY_WEIGHT_G :: real where
  "DRY_WEIGHT_G = 50"

definition BASE_TEMP_C :: real where
  "BASE_TEMP_C = 90"

definition BASE_AIR_SPEED_MS :: real where
  "BASE_AIR_SPEED_MS = 1.5"

text \<open>
  The body of the loop over the lines (lines 80-93), before the floor at 0.
  \<^verbatim>\<open>final_total_mass\<close> is a NumPy scalar, so a zero divisor raises nothing: the
  quotient is then \<open>-inf\<close> (the dividend is \<open>-50\<close>), floored to 0 by the caller, which
  is also what \<open>x / 0 = 0\<close> gives here.
\<close>

definition final_humidity :: "params \<Rightarrow> real \<Rightarrow> real \<Rightarrow> int \<Rightarrow> real" where
  "final_humidity params initial_water_mass water_evaporated_base i =
     (let uniformity_factor =
            (if i = 0 \<or> i = num_lineas params - 1 then 0.85
             else if i = 1 \<or> i = num_lineas params - 2 then 0.95
             else 1.0);
          water_evaporated_line = water_evaporated_base * uniformity_factor;
          final_water_mass = initial_water_mass - water_evaporated_line;
          final_total_mass = final_water_mass + DRY_WEIGHT_G
      in (final_water_mass / final_total_mass) * 100)"

text \<open>The loop of lines 78-95, appending to \<^verbatim>\<open>humedad_final_list\<close>.\<close>

fun simulation_loop :: "params \<Rightarrow> real \<Rightarrow> real \<Rightarrow> int list \<Rightarrow> real list \<Rightarrow> real list" where
  "simulation_loop params initial_water_mass water_evaporated_base [] humedad_final_list =
     humedad_final_list"
| "simulation_loop params initial_water_mass water_evaporated_base (i # rest) humedad_final_list =
     simulation_loop params initial_water_mass water_evaporated_base rest
       (humedad_final_list @
          [max 0 (final_humidity params initial_water_mass water_evaporated_base i)])"

text \<open>
  The function itself. The divisors of lines 64, 65 and 69 are the non-zero constants
  90.0, 1.5 and 100, so no division of it raises; the powers of lines 64 and 65 raise
  \<^verbatim>\<open>OverflowError\<close> only for a temperature or an air speed far beyond the ranges of
  the sliders (see \<open>py_pow\<close>).
\<close>

definition run_industrial_simulation :: "params \<Rightarrow> dataframe option" where
  "run_industrial_simulation params =
     (let initial_water_mass = peso_humedo params - DRY_WEIGHT_G in
      case py_pow (temperatura params / BASE_TEMP_C) 1.5 of
        None \<Rightarrow> None
      | Some temp_factor \<Rightarrow>
          (case py_pow (velocidad_aire params / BASE_AIR_SPEED_MS) 0.8 of
             None \<Rightarrow> None
           | Some airspeed_factor \<Rightarrow>
               (let drying_rate_base = temp_factor * airspeed_factor;
                    rh_factor = 1 - (humedad_aire params / 100);
                    water_evaporated_base =
                      initial_water_mass *
                        (1 - exp (- 0.05 * tiempo_residencia params * drying_rate_base * rh_factor));
                    nombres_lineas = map (\<lambda>i. i + 1) (py_range (num_lineas params));
                    humedad_final_list =
                      simulation_loop params initial_water_mass water_evaporated_base
                        (py_range (num_lineas params)) []
                in Some \<lparr>linea = nombres_lineas, humedad_residual = humedad_final_list\<rparr>)))"

subsection \<open>\<^verbatim>\<open>calculate_kpis\<close> (lines 103-142)\<close>

definition AIR_DENSITY_KGM3 :: real where
  "AIR_DENSITY_KGM3 = 1.0"

definition AIR_SPECIFIC_HEAT_J_KGK :: real where
  "AIR_SPECIFIC_HEAT_J_KGK = 1005"

definition PRICE_KWH :: real where
  "PRICE_KWH = 0.15"

text \<open>
  \<^verbatim>\<open>params['tiempo_residencia']\<close> is the Python number of the slider, so line 114
  raises \<^verbatim>\<open>ZeroDivisionError\<close> when it is zero; for parameters in the ranges of the
  sliders, lines 111-113 before it raise nothing. The cube of line 125 raises
  \<^verbatim>\<open>OverflowError\<close> only for an air speed far beyond the range of its slider, which
  is not represented. The mean and the maximum of the moisture column may be NaN, and
  so may be what is computed from them.
\<close>

definition calculate_kpis :: "params \<Rightarrow> dataframe \<Rightarrow> py_error + kpis" where
  "calculate_kpis params df_results =
     (let initial_water_kg = (peso_humedo params - 50) / 1000;
          final_water_kg_avg =
            map_option (\<lambda>m. ((m / 100) * peso_humedo params) / 1000)
              (series_mean (humedad_residual df_results));
          evaporated_water_kg_per_piece =
            map_option (\<lambda>f. initial_water_kg - f) final_water_kg_avg
      in if tiempo_residencia params = 0 then Inl ZeroDivisionError
         else
           (let pieces_per_hour =
                  (60 / tiempo_residencia params) * real_of_int (num_lineas params);
                evaporation_rate_kgh =
                  map_option (\<lambda>e. e * pieces_per_hour) evaporated_water_kg_per_piece;
                dryer_cross_section_m2 = real_of_int (num_lineas params) * 0.5;
                air_flow_m3s = velocidad_aire params * dryer_cross_section_m2;
                air_mass_kgs = air_flow_m3s * AIR_DENSITY_KGM3;
                power_heating_kw =
                  (air_mass_kgs * AIR_SPECIFIC_HEAT_J_KGK * (temperatura params - 25)) / 1000;
                power_fan_kw = 2.5 * (velocidad_aire params ^ 3) * real_of_int (num_lineas params);
                total_power_kw = power_heating_kw + power_fan_kw;
                energy_cost_per_hour = total_power_kw * PRICE_KWH;
                risk =
                  (if temperatura params > 160 \<or>
                      nan_gt (series_max (humedad_residual df_results)) 12 then ''Alto''
                   else if temperatura params > 140 \<or>
                      nan_gt (series_max (humedad_residual df_results)) 9 then ''Medio''
                   else ''Bajo'')
            in Inr \<lparr>humedad_promedio = series_mean (humedad_residual df_results),
                     costo_energetico = energy_cost_per_hour,
                     tasa_evaporacion = evaporation_rate_kgh,
                     riesgo_calidad = risk\<rparr>))"

subsection \<open>The sensitivity sweep (lines 219-240)\<close>

text \<open>The values of \<^verbatim>\<open>variable_options\<close>: the keys that can be swept.\<close>

datatype variable = Temperatura | Velocidad_aire | Tiempo_residencia | Peso_humedo

text \<open>\<^verbatim>\<open>temp_params = params.copy(); temp_params[selected_var_key] = val\<close>.\<close>

fun set_param :: "params \<Rightarrow> variable \<Rightarrow> real \<Rightarrow> params" where
  "set_param params Temperatura val = params\<lparr>temperatura := val\<rparr>"
| "set_param params Velocidad_aire val = params\<lparr>velocidad_aire := val\<rparr>"
| "set_param params Tiempo_residencia val = params\<lparr>tiempo_residencia := val\<rparr>"
| "set_param params Peso_humedo val = params\<lparr>peso_humedo := val\<rparr>"

text \<open>
  \<^verbatim>\<open>np.linspace(start, stop, num)\<close>: the multiples of the step from \<open>start\<close>, the last
  sample then overwritten with \<open>stop\<close> when there are at least two.
\<close>

definition linspace :: "real \<Rightarrow> real \<Rightarrow> nat \<Rightarrow> real list" where
  "linspace start stop num =
     (let y = map real [0..<num];
          delta = stop - start
      in if num - 1 > 0
         then (map (\<lambda>k. k * (delta / real (num - 1)) + start) y)[num - 1 := stop]
         else map (\<lambda>k. k * delta + start) y)"

text \<open>The loop of lines 235-240, appending to \<^verbatim>\<open>sens_results\<close>.\<close>

fun sensitivity_loop ::
  "params \<Rightarrow> variable \<Rightarrow> real list \<Rightarrow> real option list \<Rightarrow> real option list option" where
  "sensitivity_loop params selected_var_key [] sens_results = Some sens_results"
| "sensitivity_loop params selected_var_key (val # rest) sens_results =
     (case run_industrial_simulation (set_param params selected_var_key val) of
        None \<Rightarrow> None
      | Some df_sens \<Rightarrow>
          sensitivity_loop params selected_var_key rest
            (sens_results @ [series_mean (humedad_residual df_sens)]))"

text \<open>
  The sweep: 20 samples between the two bounds, which the source reads from the session
  state (80 and 180 for the temperature, lines 260-261); the chart pairs each swept
  value with its mean moisture (lines 243-245).
\<close>

definition sensitivity_sweep ::
  "params \<Rightarrow> variable \<Rightarrow> real \<Rightarrow> real \<Rightarrow> (real \<times> real option) list option" where
  "sensitivity_sweep params selected_var_key lower upper =
     (let sens_values = linspace lower upper 20 in
      case sensitivity_loop params selected_var_key sens_values [] of
        None \<Rightarrow> None
      | Some sens_results \<Rightarrow> Some (zip sens_values sens_results))"

subsection \<open>Notions used to state the properties\<close>

text \<open>
  The uniformity factor as the specification words it: 0.85 on the outermost lines,
  0.95 on the second lines from an edge, 1.00 inside, the outermost rule first.
\<close>

definition spec_uniformity_factor :: "int \<Rightarrow> int \<Rightarrow> real" where
  "spec_uniformity_factor n i =
     (if i \<in> {0, n - 1} then 0.85 else if i \<in> {1, n - 2} then 0.95 else 1.00)"

text \<open>
  The residual moisture of a line as the specification computes it from the initial
  water mass \<open>w\<close>, the base evaporated mass \<open>b\<close> and a uniformity factor \<open>u\<close>
  (step 6 of section 4.1).
\<close>

definition spec_moisture :: "real \<Rightarrow> real \<Rightarrow> real \<Rightarrow> real" where
  "spec_moisture w b u = max 0 (100 * (w - b * u) / ((w - b * u) + 50))"

text \<open>
  The base evaporated mass of lines 61-72 as one expression, for parameters whose
  temperature and air speed are not negative.
\<close>

definition evaporated_base :: "params \<Rightarrow> real" where
  "evaporated_base p =
     (peso_humedo p - 50) *
       (1 - exp (- 0.05 * tiempo_residencia p *
                 ((temperatura p / 90) powr 1.5 * (velocidad_aire p / 1.5) powr 0.8) *
                 (1 - humedad_aire p / 100)))"

text \<open>
  The moisture column that the specification's formulas give for the lines
  \<open>0, ..., num_lineas - 1\<close>.
\<close>

definition line_moistures :: "params \<Rightarrow> real list" where
  "line_moistures p =
     map (\<lambda>i. spec_moisture (peso_humedo p - 50) (evaporated_base p)
                (spec_uniformity_factor (num_lineas p) i))
       (py_range (num_lineas p))"

text \<open>The reference scenario of the specification (section 8), the sliders' defaults.\<close>

definition reference_params :: params where
  "reference_params =
     \<lparr>peso_humedo = 240, espesor = 3, temperatura = 135, velocidad_aire = 1.5,
      tiempo_residencia = 10, humedad_aire = 50, num_lineas = 6\<rparr>"

text \<open>The mean of a non-empty column, as a number.\<close>

definition mean :: "real list \<Rightarrow> real" where
  "mean xs = sum_list xs / real (length xs)"

section \<open>Properties\<close>

subsection \<open>The loop and the range\<close>

lemma simulation_loop_map:
  "simulation_loop params w b idxs acc =
     acc @ map (\<lambda>i. max 0 (final_humidity params w b i)) idxs"
  by (induction idxs arbitrary: acc) simp_all

lemma length_py_range: "length (py_range n) = nat n"
  by (simp add: py_range_def)

lemma nth_py_range: "0 \<le> i \<Longrightarrow> i < n \<Longrightarrow> py_range n ! nat i = i"
  by (simp add: py_range_def)

lemma run_industrial_simulation_eq:
  assumes "0 \<le> temperatura p" and "0 \<le> velocidad_aire p"
  shows "run_industrial_simulation p =
           Some \<lparr>linea = map (\<lambda>i. i + 1) (py_range (num_lineas p)),
                 humedad_residual =
                   map (\<lambda>i. max 0 (final_humidity p (peso_humedo p - 50) (evaporated_base p) i))
                     (py_range (num_lineas p))\<rparr>"
  using assms
  by (simp add: run_industrial_simulation_def py_pow_def simulation_loop_map
      evaporated_base_def DRY_WEIGHT_G_def BASE_TEMP_C_def BASE_AIR_SPEED_MS_def Let_def)

subsection \<open>The moisture of one line\<close>

lemma final_humidity_spec:
  "max 0 (final_humidity p w b i) = spec_moisture w b (spec_uniformity_factor (num_lineas p) i)"
  by (simp add: final_humidity_def spec_moisture_def spec_uniformity_factor_def DRY_WEIGHT_G_def
      Let_def algebra_simps)

lemma humedad_nth:
  assumes "0 \<le> temperatura p" and "0 \<le> velocidad_aire p"
    and "run_industrial_simulation p = Some df" and "0 \<le> i" and "i < num_lineas p"
  shows "humedad_residual df ! nat i =
           spec_moisture (peso_humedo p - 50) (evaporated_base p)
             (spec_uniformity_factor (num_lineas p) i)"
proof -
  have "nat i < length (py_range (num_lineas p))"
    using assms(4,5) by (simp add: length_py_range)
  then show ?thesis
    using assms run_industrial_simulation_eq [OF assms(1,2)]
    by (auto simp: nth_py_range final_humidity_spec)
qed

lemma drying_exponent_pos:
  assumes "valid_params p"
  shows "0 < 0.05 * tiempo_residencia p *
                 ((temperatura p / 90) powr 1.5 * (velocidad_aire p / 1.5) powr 0.8) *
                 (1 - humedad_aire p / 100)"
proof -
  from assms have "0 < tiempo_residencia p" "0 < temperatura p / 90" "0 < velocidad_aire p / 1.5"
    "0 < 1 - humedad_aire p / 100"
    by (simp_all add: valid_params_def)
  then show ?thesis by simp
qed

lemma evaporated_base_bounds:
  assumes "valid_params p"
  shows "0 < evaporated_base p" and "evaporated_base p < peso_humedo p - 50"
proof -
  let ?k = "0.05 * tiempo_residencia p *
                 ((temperatura p / 90) powr 1.5 * (velocidad_aire p / 1.5) powr 0.8) *
                 (1 - humedad_aire p / 100)"
  have k: "0 < ?k" by (rule drying_exponent_pos [OF assms])
  have w: "0 < peso_humedo p - 50" using assms by (simp add: valid_params_def)
  have e: "0 < exp (- ?k)" "exp (- ?k) < 1" using k by simp_all
  have eq: "evaporated_base p = (peso_humedo p - 50) * (1 - exp (- ?k))"
    by (simp add: evaporated_base_def)
  show "0 < evaporated_base p" unfolding eq using w e by simp
  have "(peso_humedo p - 50) * (1 - exp (- ?k)) < (peso_humedo p - 50) * 1"
    using w e by (intro mult_strict_left_mono) simp_all
  then show "evaporated_base p < peso_humedo p - 50" unfolding eq by simp
qed

lemma spec_uniformity_factor_range:
  "0 < spec_uniformity_factor n i" "spec_uniformity_factor n i \<le> 1"
  "85 / 100 \<le> spec_uniformity_factor n i"
  by (simp_all add: spec_uniformity_factor_def)

text \<open>The wet-basis moisture grows with the water mass.\<close>

lemma wet_basis_mono:
  fixes x y :: real
  assumes "0 \<le> x" "x \<le> y"
  shows "100 * x / (x + 50) \<le> 100 * y / (y + 50)"
  using assms by (simp add: field_simps)

lemma wet_basis_strict_mono:
  fixes x y :: real
  assumes "0 \<le> x" "x < y"
  shows "100 * x / (x + 50) < 100 * y / (y + 50)"
  using assms by (simp add: field_simps)

lemma remaining_water_pos:
  fixes w b u :: real
  assumes "0 < b" "b < w" "0 < u" "u \<le> 1"
  shows "0 < w - b * u"
proof -
  have "b * u \<le> b" using assms by (simp add: mult_left_le)
  with assms show ?thesis by linarith
qed

lemma spec_moisture_pos:
  assumes "0 < b" "b < w" "0 < u" "u \<le> 1"
  shows "spec_moisture w b u = 100 * (w - b * u) / ((w - b * u) + 50)"
    and "0 < spec_moisture w b u"
proof -
  have r: "0 < w - b * u" by (rule remaining_water_pos [OF assms])
  then have "0 < 100 * (w - b * u) / ((w - b * u) + 50)" by simp
  then show "spec_moisture w b u = 100 * (w - b * u) / ((w - b * u) + 50)"
    and "0 < spec_moisture w b u"
    by (simp_all add: spec_moisture_def)
qed

lemma spec_moisture_antimono_factor:
  assumes "0 < b" "b < w" "0 < u" "u \<le> u'" "u' \<le> 1"
  shows "spec_moisture w b u' \<le> spec_moisture w b u"
proof -
  have u1: "u \<le> 1" "0 < u'" using assms by simp_all
  have "b * u \<le> b * u'" using assms by (intro mult_left_mono) simp_all
  moreover have "0 < w - b * u'" using assms u1 by (intro remaining_water_pos) simp_all
  ultimately have "100 * (w - b * u') / ((w - b * u') + 50) \<le> 100 * (w - b * u) / ((w - b * u) + 50)"
    by (intro wet_basis_mono) simp_all
  then show ?thesis
    using spec_moisture_pos(1) [of b w u] spec_moisture_pos(1) [of b w u'] assms u1 by simp
qed

lemma spec_moisture_strict_antimono_base:
  assumes "0 < b" "b < b'" "b' < w" "0 < u" "u \<le> 1"
  shows "spec_moisture w b' u < spec_moisture w b u"
proof -
  have "b * u < b' * u" using assms by simp
  moreover have "0 < w - b' * u" using assms by (intro remaining_water_pos) simp_all
  ultimately have "100 * (w - b' * u) / ((w - b' * u) + 50) < 100 * (w - b * u) / ((w - b * u) + 50)"
    by (intro wet_basis_strict_mono) simp_all
  then show ?thesis
    using spec_moisture_pos(1) [of b w u] spec_moisture_pos(1) [of b' w u] assms by simp
qed

subsection \<open>The simulation on the documented domains\<close>

lemma valid_params_run:
  assumes "valid_params p"
  shows "\<exists>df. run_industrial_simulation p = Some df"
proof -
  from assms have "0 \<le> temperatura p" "0 \<le> velocidad_aire p"
    by (simp_all add: valid_params_def)
  then show ?thesis by (simp add: run_industrial_simulation_eq)
qed

lemma run_industrial_simulation_spec:
  assumes "0 \<le> temperatura p" and "0 \<le> velocidad_aire p"
  shows "run_industrial_simulation p =
           Some \<lparr>linea = map (\<lambda>i. i + 1) (py_range (num_lineas p)),
                 humedad_residual = line_moistures p\<rparr>"
  by (simp add: run_industrial_simulation_eq [OF assms] final_humidity_spec line_moistures_def)

lemma valid_params_spec:
  assumes "valid_params p"
  shows "run_industrial_simulation p =
           Some \<lparr>linea = map (\<lambda>i. i + 1) (py_range (num_lineas p)),
                 humedad_residual = line_moistures p\<rparr>"
  using assms by (intro run_industrial_simulation_spec) (simp_all add: valid_params_def)

lemma line_moistures_nonempty:
  assumes "valid_params p"
  shows "line_moistures p \<noteq> []" and "series_mean (line_moistures p) = Some (mean (line_moistures p))"
proof -
  have "length (line_moistures p) = nat (num_lineas p)"
    by (simp add: line_moistures_def length_py_range)
  moreover have "2 \<le> num_lineas p" using assms by (simp add: valid_params_def)
  ultimately show "line_moistures p \<noteq> []" by auto
  then show "series_mean (line_moistures p) = Some (mean (line_moistures p))"
    by (simp add: series_mean_def mean_def)
qed

lemma evaporated_base_temperature:
  assumes "valid_params p" and "valid_params (p\<lparr>temperatura := T'\<rparr>)" and "temperatura p < T'"
  shows "evaporated_base p < evaporated_base (p\<lparr>temperatura := T'\<rparr>)"
proof -
  define c where "c = 0.05 * tiempo_residencia p * (velocidad_aire p / 1.5) powr 0.8 *
    (1 - humedad_aire p / 100)"
  define w where "w = peso_humedo p - 50"
  from assms(1) have pos: "0 < tiempo_residencia p" "0 < velocidad_aire p / 1.5"
    "0 < 1 - humedad_aire p / 100" "0 \<le> temperatura p / 90" "0 < w"
    by (simp_all add: valid_params_def w_def)
  then have c: "0 < c" by (simp add: c_def)
  have "temperatura p / 90 < T' / 90" using assms(3) by simp
  then have "(temperatura p / 90) powr 1.5 < (T' / 90) powr 1.5"
    using pos(4) by (intro powr_less_mono2) simp_all
  then have "c * (temperatura p / 90) powr 1.5 < c * (T' / 90) powr 1.5"
    using c by simp
  then have "exp (- (c * (T' / 90) powr 1.5)) < exp (- (c * (temperatura p / 90) powr 1.5))"
    by simp
  then have "w * (1 - exp (- (c * (temperatura p / 90) powr 1.5)))
      < w * (1 - exp (- (c * (T' / 90) powr 1.5)))"
    using pos(5) by simp
  moreover have "evaporated_base p = w * (1 - exp (- (c * (temperatura p / 90) powr 1.5)))"
    by (simp add: evaporated_base_def c_def w_def mult.assoc mult.left_commute)
  moreover have "evaporated_base (p\<lparr>temperatura := T'\<rparr>) =
      w * (1 - exp (- (c * (T' / 90) powr 1.5)))"
    by (simp add: evaporated_base_def c_def w_def mult.assoc mult.left_commute)
  ultimately show ?thesis by simp
qed

lemma mean_moisture_temperature:
  assumes "valid_params p" and "valid_params (p\<lparr>temperatura := T'\<rparr>)" and "temperatura p < T'"
  shows "mean (line_moistures (p\<lparr>temperatura := T'\<rparr>)) < mean (line_moistures p)"
proof -
  let ?p' = "p\<lparr>temperatura := T'\<rparr>"
  let ?w = "peso_humedo p - 50"
  let ?n = "num_lineas p"
  have b: "0 < evaporated_base p" "evaporated_base p < evaporated_base ?p'"
    "evaporated_base ?p' < ?w"
    using evaporated_base_bounds [OF assms(1)] evaporated_base_bounds [OF assms(2)]
      evaporated_base_temperature [OF assms] by simp_all
  have ne: "py_range ?n \<noteq> []"
    using line_moistures_nonempty(1) [OF assms(1)] by (simp add: line_moistures_def)
  have "sum_list (map (\<lambda>i. spec_moisture ?w (evaporated_base ?p') (spec_uniformity_factor ?n i))
                   (py_range ?n))
      < sum_list (map (\<lambda>i. spec_moisture ?w (evaporated_base p) (spec_uniformity_factor ?n i))
                   (py_range ?n))"
    using ne
    by (rule sum_list_strict_mono)
      (rule spec_moisture_strict_antimono_base
        [OF b spec_uniformity_factor_range(1) spec_uniformity_factor_range(2)])
  then have "sum_list (line_moistures ?p') < sum_list (line_moistures p)"
    by (simp add: line_moistures_def)
  moreover have "length (line_moistures ?p') = length (line_moistures p)"
    by (simp add: line_moistures_def)
  moreover have "0 < length (line_moistures p)"
    using line_moistures_nonempty(1) [OF assms(1)] by simp
  ultimately show ?thesis
    by (simp add: mean_def divide_strict_right_mono)
qed

lemma mean_moisture_pos:
  assumes "valid_params p"
  shows "0 < mean (line_moistures p)"
proof -
  have ne: "py_range (num_lineas p) \<noteq> []"
    using line_moistures_nonempty(1) [OF assms(1)] by (simp add: line_moistures_def)
  have "sum_list (map (\<lambda>i. 0::real) (py_range (num_lineas p)))
      < sum_list (map (\<lambda>i. spec_moisture (peso_humedo p - 50) (evaporated_base p)
           (spec_uniformity_factor (num_lineas p) i)) (py_range (num_lineas p)))"
    using ne
    by (rule sum_list_strict_mono)
      (rule spec_moisture_pos(2)
        [OF evaporated_base_bounds [OF assms] spec_uniformity_factor_range(1)
          spec_uniformity_factor_range(2)])
  then have "0 < sum_list (line_moistures p)"
    by (simp add: line_moistures_def)
  moreover have "0 < length (line_moistures p)"
    using line_moistures_nonempty(1) [OF assms(1)] by simp
  ultimately show ?thesis by (simp add: mean_def)
qed

lemma spec_uniformity_factor_mirror:
  "spec_uniformity_factor n (n - 1 - i) = spec_uniformity_factor n i"
  by (auto simp: spec_uniformity_factor_def)

subsection \<open>The simulation returns one non-negative moisture per line\<close>

text \<open>
  Claim C1. For parameters in the documented domains the simulation returns a data
  frame with exactly \<open>num_lineas\<close> rows, and every residual moisture in it is at
  least 0.
\<close>

theorem simulate_length_nonneg:
  assumes "valid_params p"
  shows "\<exists>df. run_industrial_simulation p = Some df \<and>
              int (length (humedad_residual df)) = num_lineas p \<and>
              int (length (linea df)) = num_lineas p \<and>
              (\<forall>m \<in> set (humedad_residual df). 0 \<le> m)"
proof -
  from assms have nn: "0 \<le> temperatura p" "0 \<le> velocidad_aire p" and n: "2 \<le> num_lineas p"
    by (simp_all add: valid_params_def)
  show ?thesis
    using n by (auto simp: run_industrial_simulation_eq [OF nn] length_py_range)
qed

theorem simulate_length_nonneg_witness:
  "valid_params reference_params \<and>
   (\<exists>df. run_industrial_simulation reference_params = Some df \<and>
         length (humedad_residual df) = 6 \<and> length (linea df) = 6 \<and>
         list_all (\<lambda>m. 0 \<le> m) (humedad_residual df))"
proof -
  have v: "valid_params reference_params"
    by (simp add: valid_params_def reference_params_def)
  show ?thesis
    using v simulate_length_nonneg [OF v] by (auto simp: list_all_iff reference_params_def)
qed

subsection \<open>The uniformity factor of a line\<close>

text \<open>
  Claim C5. With at least two lines, the moisture of line \<open>i\<close> is computed with the
  uniformity factor 0.85 when \<open>i\<close> is 0 or \<open>num_lineas - 1\<close>, otherwise 0.95 when \<open>i\<close>
  is 1 or \<open>num_lineas - 2\<close>, otherwise 1.00: the factor of the specification, the
  outermost rule first. With two lines both lines get 0.85; with three lines the
  middle line gets 0.95.
\<close>

theorem uniformity_factor_precedence:
  assumes "0 \<le> temperatura p" and "0 \<le> velocidad_aire p"
    and "2 \<le> num_lineas p" and "0 \<le> i" and "i < num_lineas p"
  shows "\<exists>df. run_industrial_simulation p = Some df \<and>
           humedad_residual df ! nat i =
             spec_moisture (peso_humedo p - 50) (evaporated_base p)
               (spec_uniformity_factor (num_lineas p) i) \<and>
           spec_uniformity_factor (num_lineas p) i =
             (if i = 0 \<or> i = num_lineas p - 1 then 0.85
              else if i = 1 \<or> i = num_lineas p - 2 then 0.95 else 1.00) \<and>
           (num_lineas p = 2 \<longrightarrow>
              humedad_residual df ! nat i =
                spec_moisture (peso_humedo p - 50) (evaporated_base p) 0.85) \<and>
           (num_lineas p = 3 \<and> i = 1 \<longrightarrow>
              humedad_residual df ! nat i =
                spec_moisture (peso_humedo p - 50) (evaporated_base p) 0.95)"
proof -
  obtain df where df: "run_industrial_simulation p = Some df"
    using assms(1,2) by (simp add: run_industrial_simulation_eq)
  have h: "humedad_residual df ! nat i =
      spec_moisture (peso_humedo p - 50) (evaporated_base p)
        (spec_uniformity_factor (num_lineas p) i)"
    by (rule humedad_nth [OF assms(1,2) df assms(4,5)])
  have f: "spec_uniformity_factor (num_lineas p) i =
      (if i = 0 \<or> i = num_lineas p - 1 then 0.85
       else if i = 1 \<or> i = num_lineas p - 2 then 0.95 else 1.00)"
    by (simp add: spec_uniformity_factor_def)
  have two: "num_lineas p = 2 \<longrightarrow> spec_uniformity_factor (num_lineas p) i = 0.85"
    using assms(4,5) by (auto simp: spec_uniformity_factor_def)
  have three: "num_lineas p = 3 \<and> i = 1 \<longrightarrow> spec_uniformity_factor (num_lineas p) i = 0.95"
    by (simp add: spec_uniformity_factor_def)
  show ?thesis
    using df h f two three by (intro exI [of _ df]) auto
qed

theorem uniformity_factor_precedence_witness:
  "(\<exists>df. run_industrial_simulation reference_params = Some df \<and>
      humedad_residual df ! 2 =
        spec_moisture 190 (evaporated_base reference_params) 1) \<and>
   (\<exists>df. run_industrial_simulation (reference_params\<lparr>num_lineas := 2\<rparr>) = Some df \<and>
      humedad_residual df ! 1 =
        spec_moisture 190 (evaporated_base (reference_params\<lparr>num_lineas := 2\<rparr>)) 0.85) \<and>
   (\<exists>df. run_industrial_simulation (reference_params\<lparr>num_lineas := 3\<rparr>) = Some df \<and>
      humedad_residual df ! 1 =
        spec_moisture 190 (evaporated_base (reference_params\<lparr>num_lineas := 3\<rparr>)) 0.95)"
  using uniformity_factor_precedence [of reference_params 2]
    uniformity_factor_precedence [of "reference_params\<lparr>num_lineas := 2\<rparr>" 1]
    uniformity_factor_precedence [of "reference_params\<lparr>num_lineas := 3\<rparr>" 1]
  by (simp add: reference_params_def spec_uniformity_factor_def)

subsection \<open>The edge lines are the wettest\<close>

text \<open>
  Claim C4. For parameters in the documented domains (so the wet weight exceeds 50),
  the residual moisture of an edge line (index 0 or \<open>num_lineas - 1\<close>) is at least the
  residual moisture of every line of the same run, the interior lines among them.
\<close>

theorem edge_lines_wettest:
  assumes "valid_params p" and "e = 0 \<or> e = num_lineas p - 1"
    and "0 \<le> j" and "j < num_lineas p"
  shows "\<exists>df. run_industrial_simulation p = Some df \<and>
              humedad_residual df ! nat j \<le> humedad_residual df ! nat e"
proof -
  from assms(1) have nn: "0 \<le> temperatura p" "0 \<le> velocidad_aire p" and n: "2 \<le> num_lineas p"
    by (simp_all add: valid_params_def)
  obtain df where df: "run_industrial_simulation p = Some df"
    using valid_params_run [OF assms(1)] by blast
  have e: "0 \<le> e" "e < num_lineas p" using assms(2) n by auto
  have ue: "spec_uniformity_factor (num_lineas p) e = 85 / 100"
    using assms(2) by (auto simp: spec_uniformity_factor_def)
  have "spec_moisture (peso_humedo p - 50) (evaporated_base p)
          (spec_uniformity_factor (num_lineas p) j)
        \<le> spec_moisture (peso_humedo p - 50) (evaporated_base p)
          (spec_uniformity_factor (num_lineas p) e)"
    unfolding ue
    by (rule spec_moisture_antimono_factor
        [OF evaporated_base_bounds [OF assms(1)] _ spec_uniformity_factor_range(3)
          spec_uniformity_factor_range(2)]) simp
  then show ?thesis
    using df humedad_nth [OF nn df assms(3,4)] humedad_nth [OF nn df e] by simp
qed

theorem edge_lines_wettest_witness:
  "valid_params reference_params \<and>
   (\<exists>df. run_industrial_simulation reference_params = Some df \<and>
      humedad_residual df ! 2 \<le> humedad_residual df ! 0) \<and>
   (\<exists>df. run_industrial_simulation reference_params = Some df \<and>
      humedad_residual df ! 3 \<le> humedad_residual df ! 5)"
proof -
  have v: "valid_params reference_params"
    by (simp add: valid_params_def reference_params_def)
  show ?thesis
    using v edge_lines_wettest [OF v, of 0 2] edge_lines_wettest [OF v, of 5 3]
    by (simp add: reference_params_def)
qed

subsection \<open>The moisture profile is symmetric\<close>

text \<open>
  Claim C10. For parameters in the documented domains and every line index \<open>i\<close>, the
  residual moisture of line \<open>i\<close> equals that of line \<open>num_lineas - 1 - i\<close>.
\<close>

theorem moisture_profile_symmetric:
  assumes "valid_params p" and "0 \<le> i" and "i < num_lineas p"
  shows "\<exists>df. run_industrial_simulation p = Some df \<and>
              humedad_residual df ! nat i = humedad_residual df ! nat (num_lineas p - 1 - i)"
proof -
  from assms(1) have nn: "0 \<le> temperatura p" "0 \<le> velocidad_aire p"
    by (simp_all add: valid_params_def)
  obtain df where df: "run_industrial_simulation p = Some df"
    using valid_params_run [OF assms(1)] by blast
  have m: "0 \<le> num_lineas p - 1 - i" "num_lineas p - 1 - i < num_lineas p"
    using assms(2,3) by simp_all
  show ?thesis
    using df humedad_nth [OF nn df assms(2,3)] humedad_nth [OF nn df m]
    by (simp add: spec_uniformity_factor_mirror)
qed

theorem moisture_profile_symmetric_witness:
  "valid_params reference_params \<and>
   (\<exists>df. run_industrial_simulation reference_params = Some df \<and>
      humedad_residual df ! 1 = humedad_residual df ! 4)"
proof -
  have v: "valid_params reference_params"
    by (simp add: valid_params_def reference_params_def)
  show ?thesis
    using v moisture_profile_symmetric [OF v, of 1]
    by (simp add: reference_params_def)
qed

subsection \<open>The temperature sweep\<close>

lemma linspace_eq:
  assumes "2 \<le> n"
  shows "linspace a b n = map (\<lambda>k. a + real k * ((b - a) / real (n - 1))) [0..<n]"
proof (rule nth_equalityI)
  show "length (linspace a b n) = length (map (\<lambda>k. a + real k * ((b - a) / real (n - 1))) [0..<n])"
    using assms by (simp add: linspace_def)
next
  fix i assume "i < length (linspace a b n)"
  then have i: "i < n" using assms by (simp add: linspace_def)
  have n: "real (n - 1) \<noteq> 0" using assms by simp
  show "linspace a b n ! i = map (\<lambda>k. a + real k * ((b - a) / real (n - 1))) [0..<n] ! i"
  proof (cases "i = n - 1")
    case True
    then show ?thesis using assms i n by (simp add: linspace_def)
  next
    case False
    then show ?thesis using assms i by (simp add: linspace_def add.commute)
  qed
qed

lemma temperature_samples:
  "linspace 80 180 20 = map (\<lambda>k. 80 + real k * (100 / 19)) [0..<20]"
  using linspace_eq [of 20 80 180] by simp

lemma temperature_samples_range:
  assumes "x \<in> set (linspace 80 180 20)"
  shows "80 \<le> x" and "x \<le> 180"
proof -
  from assms obtain k where k: "k < 20" "x = 80 + real k * (100 / 19)"
    by (auto simp: temperature_samples)
  show "80 \<le> x" using k by simp
  have "real k \<le> 19" using k(1) by simp
  then have "real k * (100 / 19) \<le> 19 * (100 / 19)"
    by (intro mult_right_mono) simp_all
  then show "x \<le> 180" using k(2) by simp
qed

lemma temperature_samples_ascending: "sorted_wrt (<) (linspace 80 180 20)"
  by (simp add: temperature_samples sorted_wrt_map sorted_wrt_iff_nth_less)

lemma valid_params_temperature:
  assumes "valid_params p" and "80 \<le> x" and "x \<le> 180"
  shows "valid_params (p\<lparr>temperatura := x\<rparr>)"
  using assms by (simp add: valid_params_def)

lemma sensitivity_loop_temperature:
  assumes "valid_params p" and "\<forall>x \<in> set vals. 80 \<le> x \<and> x \<le> 180"
  shows "sensitivity_loop p Temperatura vals acc =
           Some (acc @ map (\<lambda>x. Some (mean (line_moistures (p\<lparr>temperatura := x\<rparr>)))) vals)"
  using assms(2)
proof (induction vals arbitrary: acc)
  case Nil
  then show ?case by simp
next
  case (Cons x vals)
  then have v: "valid_params (p\<lparr>temperatura := x\<rparr>)"
    using assms(1) by (simp add: valid_params_temperature)
  show ?case
    using Cons
    by (simp add: valid_params_spec [OF v] line_moistures_nonempty(2) [OF v])
qed

lemma mean_moisture_samples_descending:
  assumes "valid_params p"
  shows "sorted_wrt (\<ge>) (map (\<lambda>x. mean (line_moistures (p\<lparr>temperatura := x\<rparr>)))
           (linspace 80 180 20))"
proof -
  have "sorted_wrt (\<lambda>x y. mean (line_moistures (p\<lparr>temperatura := x\<rparr>))
                          \<ge> mean (line_moistures (p\<lparr>temperatura := y\<rparr>)))
          (linspace 80 180 20)"
  proof (rule sorted_wrt_mono_rel [OF _ temperature_samples_ascending])
    fix x y :: real
    assume x: "x \<in> set (linspace 80 180 20)" and y: "y \<in> set (linspace 80 180 20)"
      and less: "x < y"
    have vx: "valid_params (p\<lparr>temperatura := x\<rparr>)"
      by (rule valid_params_temperature [OF assms temperature_samples_range [OF x]])
    have vy: "valid_params (p\<lparr>temperatura := x\<rparr>\<lparr>temperatura := y\<rparr>)"
      using valid_params_temperature [OF assms temperature_samples_range [OF y]] by simp
    have "temperatura (p\<lparr>temperatura := x\<rparr>) < y" using less by simp
    from mean_moisture_temperature [OF vx vy this]
    show "mean (line_moistures (p\<lparr>temperatura := y\<rparr>))
            \<le> mean (line_moistures (p\<lparr>temperatura := x\<rparr>))"
      by simp
  qed
  then show ?thesis by (simp add: sorted_wrt_map)
qed

text \<open>
  Claim C6. For base parameters in the documented domains, the sweep of the
  temperature between 80 and 180 returns exactly 20 pairs. Their swept values are
  \<open>80 + k * 100 / 19\<close> for \<open>k = 0, ..., 19\<close>: evenly spaced, starting at 80, ending at
  180, strictly ascending. The second component of each pair is the mean residual
  moisture of the simulation run on the base parameters with the temperature replaced
  by the swept value, and these means never increase along the sequence.
\<close>

theorem temperature_sweep:
  assumes "valid_params p"
  shows "\<exists>curve ms.
           sensitivity_sweep p Temperatura 80 180 = Some curve \<and>
           length curve = 20 \<and>
           map fst curve = map (\<lambda>k. 80 + real k * (100 / 19)) [0..<20] \<and>
           fst (curve ! 0) = 80 \<and> fst (curve ! 19) = 180 \<and>
           sorted_wrt (<) (map fst curve) \<and>
           (\<forall>(x, y) \<in> set curve.
              \<exists>df. run_industrial_simulation (p\<lparr>temperatura := x\<rparr>) = Some df \<and>
                   y = series_mean (humedad_residual df)) \<and>
           map snd curve = map Some ms \<and> sorted_wrt (\<ge>) ms"
proof -
  let ?vals = "linspace 80 180 20"
  let ?g = "\<lambda>x. mean (line_moistures (p\<lparr>temperatura := x\<rparr>))"
  let ?curve = "zip ?vals (map (\<lambda>x. Some (?g x)) ?vals)"
  have len: "length ?vals = 20" by (simp add: temperature_samples)
  have range: "\<forall>x \<in> set ?vals. 80 \<le> x \<and> x \<le> 180"
    using temperature_samples_range by blast
  have sweep: "sensitivity_sweep p Temperatura 80 180 = Some ?curve"
    by (simp add: sensitivity_sweep_def Let_def sensitivity_loop_temperature [OF assms range])
  have fst: "map fst ?curve = ?vals" by (simp add: map_fst_zip)
  have snd: "map snd ?curve = map Some (map ?g ?vals)" by (simp add: map_snd_zip)
  have first: "fst (?curve ! 0) = 80"
    using len by (simp add: temperature_samples)
  have last: "fst (?curve ! 19) = 180"
    using len by (simp add: temperature_samples)
  have pairs: "\<forall>(x, y) \<in> set ?curve.
      \<exists>df. run_industrial_simulation (p\<lparr>temperatura := x\<rparr>) = Some df \<and>
           y = series_mean (humedad_residual df)"
  proof (clarify)
    fix x y assume "(x, y) \<in> set ?curve"
    then have x: "x \<in> set ?vals" and y: "y = Some (?g x)"
      by (auto simp: zip_map2 in_set_zip)
    have v: "valid_params (p\<lparr>temperatura := x\<rparr>)"
      by (rule valid_params_temperature [OF assms temperature_samples_range [OF x]])
    show "\<exists>df. run_industrial_simulation (p\<lparr>temperatura := x\<rparr>) = Some df \<and>
           y = series_mean (humedad_residual df)"
      by (simp add: valid_params_spec [OF v] line_moistures_nonempty(2) [OF v] y)
  qed
  show ?thesis
    using sweep len fst snd first last pairs temperature_samples_ascending
      mean_moisture_samples_descending [OF assms] temperature_samples
    by (intro exI [of _ ?curve] exI [of _ "map ?g ?vals"]) (simp only: length_zip length_map simp_thms min.idem)
qed

theorem temperature_sweep_witness:
  "valid_params reference_params \<and>
   (\<exists>curve ms.
      sensitivity_sweep reference_params Temperatura 80 180 = Some curve \<and>
      length curve = 20 \<and> fst (curve ! 0) = 80 \<and> fst (curve ! 19) = 180 \<and>
      sorted_wrt (<) (map fst curve) \<and>
      map snd curve = map Some ms \<and> sorted_wrt (\<ge>) ms)"
proof -
  have v: "valid_params reference_params"
    by (simp add: valid_params_def reference_params_def)
  show ?thesis
    using v temperature_sweep [OF v] by blast
qed

subsection \<open>The quality risk\<close>

lemma series_max_Max:
  assumes "xs \<noteq> []"
  shows "series_max xs = Some (Max (set xs))"
proof -
  from assms obtain x ys where xs: "xs = x # ys" by (cases xs) auto
  have "Max (set (x # ys)) = fold max ys x" by (rule Max.set_eq_fold)
  then show ?thesis by (simp add: series_max_def xs)
qed

lemma riesgo_calidad_eq:
  assumes "tiempo_residencia p \<noteq> 0"
  shows "map_sum id riesgo_calidad (calculate_kpis p df) =
           Inr (if temperatura p > 160 \<or> nan_gt (series_max (humedad_residual df)) 12
                then ''Alto''
                else if temperatura p > 140 \<or> nan_gt (series_max (humedad_residual df)) 9
                then ''Medio'' else ''Bajo'')"
  using assms by (simp add: calculate_kpis_def Let_def)

lemma nan_gt_series_max:
  "nan_gt (series_max xs) c \<longleftrightarrow> (\<exists>x \<in> set xs. c < x)"
proof (cases "xs = []")
  case True
  then show ?thesis by (simp add: series_max_def nan_gt_def)
next
  case False
  then show ?thesis
    by (simp add: series_max_Max nan_gt_def Max_gr_iff)
qed

text \<open>
  Claim C2. \<^verbatim>\<open>calculate_kpis\<close> classifies the risk by ordered rules on the
  temperature and on the maximum residual moisture of the lines: \<open>Alto\<close> (high) when
  the temperature exceeds 160 or the maximum exceeds 12; otherwise \<open>Medio\<close> (medium)
  when the temperature exceeds 140 or the maximum exceeds 9; otherwise \<open>Bajo\<close> (low).
  In particular the risk is high for parameters of the documented domains with 6 lines
  and temperature 161, and low for parameters of the documented domains with
  temperature 135 and every line moisture at most 9.
\<close>

theorem risk_classification:
  "(tiempo_residencia p \<noteq> 0 \<and> humedad_residual df \<noteq> [] \<longrightarrow>
      map_sum id riesgo_calidad (calculate_kpis p df) =
        Inr (if temperatura p > 160 \<or> Max (set (humedad_residual df)) > 12 then ''Alto''
             else if temperatura p > 140 \<or> Max (set (humedad_residual df)) > 9 then ''Medio''
             else ''Bajo'')) \<and>
   (valid_params q \<and> num_lineas q = 6 \<and> temperatura q = 161 \<longrightarrow>
      map_sum id riesgo_calidad (calculate_kpis q dq) = Inr ''Alto'') \<and>
   (valid_params r \<and> temperatura r = 135 \<and> (\<forall>m \<in> set (humedad_residual dr). m \<le> 9) \<longrightarrow>
      map_sum id riesgo_calidad (calculate_kpis r dr) = Inr ''Bajo'')"
proof (intro conjI impI)
  assume a: "tiempo_residencia p \<noteq> 0 \<and> humedad_residual df \<noteq> []"
  then show "map_sum id riesgo_calidad (calculate_kpis p df) =
        Inr (if temperatura p > 160 \<or> Max (set (humedad_residual df)) > 12 then ''Alto''
             else if temperatura p > 140 \<or> Max (set (humedad_residual df)) > 9 then ''Medio''
             else ''Bajo'')"
    by (simp add: riesgo_calidad_eq series_max_Max nan_gt_def)
next
  assume a: "valid_params q \<and> num_lineas q = 6 \<and> temperatura q = 161"
  then have "tiempo_residencia q \<noteq> 0" by (auto simp: valid_params_def)
  then show "map_sum id riesgo_calidad (calculate_kpis q dq) = Inr ''Alto''"
    using a by (simp add: riesgo_calidad_eq)
next
  assume a: "valid_params r \<and> temperatura r = 135 \<and> (\<forall>m \<in> set (humedad_residual dr). m \<le> 9)"
  then have t: "tiempo_residencia r \<noteq> 0" by (auto simp: valid_params_def)
  have "\<not> nan_gt (series_max (humedad_residual dr)) 12" "\<not> nan_gt (series_max (humedad_residual dr)) 9"
    using a by (auto simp: nan_gt_series_max)
  then show "map_sum id riesgo_calidad (calculate_kpis r dr) = Inr ''Bajo''"
    using a t by (simp add: riesgo_calidad_eq)
qed

theorem risk_classification_witness:
  "map_sum id riesgo_calidad
     (calculate_kpis reference_params \<lparr>linea = [1, 2], humedad_residual = [8, 10]\<rparr>) = Inr ''Medio'' \<and>
   map_sum id riesgo_calidad
     (calculate_kpis reference_params \<lparr>linea = [1, 2], humedad_residual = [13, 10]\<rparr>) = Inr ''Alto'' \<and>
   valid_params (reference_params\<lparr>temperatura := 161\<rparr>) \<and>
   map_sum id riesgo_calidad
     (calculate_kpis (reference_params\<lparr>temperatura := 161\<rparr>)
        \<lparr>linea = [1, 2], humedad_residual = [8, 7]\<rparr>) = Inr ''Alto'' \<and>
   valid_params reference_params \<and> 
   map_sum id riesgo_calidad
     (calculate_kpis reference_params \<lparr>linea = [1, 2], humedad_residual = [9, 7]\<rparr>) = Inr ''Bajo''"
  using risk_classification [of reference_params "\<lparr>linea = [1, 2], humedad_residual = [8, 10]\<rparr>"
       "reference_params\<lparr>temperatura := 161\<rparr>" "\<lparr>linea = [1, 2], humedad_residual = [8, 7]\<rparr>"
       reference_params "\<lparr>linea = [1, 2], humedad_residual = [9, 7]\<rparr>"]
    risk_classification [of reference_params "\<lparr>linea = [1, 2], humedad_residual = [13, 10]\<rparr>"]
  by (simp add: reference_params_def valid_params_def)

subsection \<open>The thickness is inert\<close>

lemma final_humidity_espesor:
  "final_humidity (p\<lparr>espesor := e\<rparr>) = final_humidity p"
  by (simp add: final_humidity_def fun_eq_iff)

text \<open>
  Claim C9. The thickness \<open>espesor\<close> influences no output: two parameter sets that
  differ only in the thickness give the same simulation result and the same KPI
  report, on any results and on the results of their own simulations.
\<close>

theorem espesor_noninterference:
  "run_industrial_simulation (p\<lparr>espesor := e\<rparr>) = run_industrial_simulation p \<and>
   calculate_kpis (p\<lparr>espesor := e\<rparr>) df = calculate_kpis p df \<and>
   map_option (calculate_kpis (p\<lparr>espesor := e\<rparr>)) (run_industrial_simulation (p\<lparr>espesor := e\<rparr>))
     = map_option (calculate_kpis p) (run_industrial_simulation p)"
proof -
  have run: "run_industrial_simulation (p\<lparr>espesor := e\<rparr>) = run_industrial_simulation p"
    by (simp add: run_industrial_simulation_def simulation_loop_map final_humidity_espesor Let_def
        split: option.split)
  have kpi: "calculate_kpis (p\<lparr>espesor := e\<rparr>) = calculate_kpis p"
    by (simp add: calculate_kpis_def fun_eq_iff)
  show ?thesis by (simp add: run kpi)
qed

subsection \<open>The KPIs of an empty result table\<close>

text \<open>
  Claim C8 states that \<^verbatim>\<open>calculate_kpis\<close> rejects an empty result table with an
  \<open>EmptyResultSet\<close> error. It does not: on the reference parameters and an empty table
  it returns a report.
\<close>

theorem kpis_of_empty_results_counterexample:
  "calculate_kpis reference_params \<lparr>linea = [], humedad_residual = []\<rparr> =
     Inr \<lparr>humedad_promedio = None, costo_energetico = 82.215, tasa_evaporacion = None,
          riesgo_calidad = ''Bajo''\<rparr>"
  by (simp add: calculate_kpis_def reference_params_def series_mean_def series_max_def nan_gt_def
      AIR_DENSITY_KGM3_def AIR_SPECIFIC_HEAT_J_KGK_def PRICE_KWH_def power3_eq_cube)

text \<open>
  Claim C8, amended. \<^verbatim>\<open>calculate_kpis\<close> does not reject an empty result table:
  when the residence time is not zero it returns a report whose mean moisture and
  evaporation rate are NaN, whose energy cost is the usual formula of the parameters,
  and whose risk is decided by the temperature alone.
\<close>

theorem kpis_of_empty_results:
  assumes "tiempo_residencia p \<noteq> 0" and "humedad_residual df = []"
  shows "calculate_kpis p df =
     Inr \<lparr>humedad_promedio = None,
          costo_energetico =
            ((velocidad_aire p * (real_of_int (num_lineas p) * 0.5) * 1.0 * 1005 *
                (temperatura p - 25)) / 1000 +
             2.5 * (velocidad_aire p ^ 3) * real_of_int (num_lineas p)) * 0.15,
          tasa_evaporacion = None,
          riesgo_calidad =
            (if temperatura p > 160 then ''Alto''
             else if temperatura p > 140 then ''Medio'' else ''Bajo'')\<rparr>"
  using assms
  by (simp add: calculate_kpis_def series_mean_def series_max_def nan_gt_def
      AIR_DENSITY_KGM3_def AIR_SPECIFIC_HEAT_J_KGK_def PRICE_KWH_def)

theorem kpis_of_empty_results_witness:
  "tiempo_residencia (reference_params\<lparr>temperatura := 150\<rparr>) \<noteq> 0 \<and>
   calculate_kpis (reference_params\<lparr>temperatura := 150\<rparr>)
       \<lparr>linea = [], humedad_residual = []\<rparr> =
     Inr \<lparr>humedad_promedio = None, costo_energetico = 92.390625, tasa_evaporacion = None,
          riesgo_calidad = ''Medio''\<rparr>"
  using kpis_of_empty_results [of "reference_params\<lparr>temperatura := 150\<rparr>"
      "\<lparr>linea = [], humedad_residual = []\<rparr>"]
  by (simp add: reference_params_def power3_eq_cube)

subsection \<open>The errors of the core\<close>

lemma spec_moisture_floor:
  assumes "- 50 < w" and "w \<le> 0" and "w \<le> b" and "b \<le> 0" and "0 < u" and "u \<le> 1"
  shows "spec_moisture w b u = 0"
proof -
  have "b * 1 \<le> b * u" by (rule mult_left_mono_neg [OF assms(6) assms(4)])
  then have le: "w - b * u \<le> 0" using assms(3) by simp
  have "b * u \<le> 0" using assms(4,5) by (simp add: mult_le_0_iff)
  then have "0 < (w - b * u) + 50" using assms(1) by simp
  with le have "100 * (w - b * u) / ((w - b * u) + 50) \<le> 0"
    by (simp add: divide_le_0_iff mult_le_0_iff)
  then show ?thesis by (simp add: spec_moisture_def)
qed

lemma evaporated_base_dry:
  assumes "peso_humedo p \<le> 50" and "0 \<le> temperatura p" and "0 \<le> velocidad_aire p"
    and "0 \<le> tiempo_residencia p" and "humedad_aire p \<le> 100"
  shows "peso_humedo p - 50 \<le> evaporated_base p" and "evaporated_base p \<le> 0"
proof -
  let ?k = "0.05 * tiempo_residencia p *
              ((temperatura p / 90) powr 1.5 * (velocidad_aire p / 1.5) powr 0.8) *
              (1 - humedad_aire p / 100)"
  have "0 \<le> ?k" using assms(4,5) by simp
  then have e: "0 \<le> 1 - exp (- ?k)" "1 - exp (- ?k) \<le> 1" by simp_all
  have eq: "evaporated_base p = (peso_humedo p - 50) * (1 - exp (- ?k))"
    by (simp add: evaporated_base_def)
  have w: "peso_humedo p - 50 \<le> 0" using assms(1) by simp
  show "evaporated_base p \<le> 0"
    unfolding eq using w e(1) by (simp add: mult_le_0_iff)
  have "(peso_humedo p - 50) * 1 \<le> (peso_humedo p - 50) * (1 - exp (- ?k))"
    by (rule mult_left_mono_neg [OF e(2) w])
  then show "peso_humedo p - 50 \<le> evaporated_base p" unfolding eq by simp
qed

text \<open>
  Claim C7 states that the core raises an error whenever the wet weight is at most 50,
  in particular for the wet weight 50 in the simulation. It does not: with the wet
  weight 50 and the other reference parameters the simulation returns six lines, all
  with moisture 0.
\<close>

theorem simulate_accepts_dry_weight:
  "run_industrial_simulation (reference_params\<lparr>peso_humedo := 50\<rparr>) =
     Some \<lparr>linea = [1, 2, 3, 4, 5, 6], humedad_residual = [0, 0, 0, 0, 0, 0]\<rparr>"
  by (simp add: run_industrial_simulation_def reference_params_def py_pow_def DRY_WEIGHT_G_def
      BASE_TEMP_C_def BASE_AIR_SPEED_MS_def py_range_def upto_rec1 final_humidity_def)

text \<open>
  Claim C7, amended. The core does not reject a wet weight of at most 50: for a wet
  weight in \<open>(0, 50]\<close> and every other field in its documented domain, the simulation
  returns \<open>num_lineas\<close> results, all floored to 0. With every other field in its
  documented domain, \<^verbatim>\<open>calculate_kpis\<close> raises a division by zero
  (\<^verbatim>\<open>ZeroDivisionError\<close>) when the residence time is 0; for parameters in the
  documented domains it returns a report.
\<close>

theorem core_errors:
  "(valid_params q \<and> 0 < w \<and> w \<le> 50 \<longrightarrow>
      run_industrial_simulation (q\<lparr>peso_humedo := w\<rparr>) =
        Some \<lparr>linea = map (\<lambda>i. i + 1) (py_range (num_lineas q)),
              humedad_residual = replicate (nat (num_lineas q)) 0\<rparr>) \<and>
   (valid_params r \<longrightarrow>
      calculate_kpis (r\<lparr>tiempo_residencia := 0\<rparr>) df = Inl ZeroDivisionError) \<and>
   (valid_params r \<longrightarrow> (\<exists>k. calculate_kpis r df = Inr k))"
proof (intro conjI impI)
  let ?p = "q\<lparr>peso_humedo := w\<rparr>"
  assume a: "valid_params q \<and> 0 < w \<and> w \<le> 50"
  then have dom: "0 \<le> temperatura ?p" "0 \<le> velocidad_aire ?p"
    "0 \<le> tiempo_residencia ?p" "humedad_aire ?p \<le> 100"
    by (simp_all add: valid_params_def)
  have dry: "peso_humedo ?p \<le> 50" using a by simp
  have b: "peso_humedo ?p - 50 \<le> evaporated_base ?p" "evaporated_base ?p \<le> 0"
    by (rule evaporated_base_dry [OF dry dom])+
  have w: "- 50 < peso_humedo ?p - 50" "peso_humedo ?p - 50 \<le> 0" using a by simp_all
  have "line_moistures ?p = map (\<lambda>i. 0) (py_range (num_lineas ?p))"
    by (simp only: line_moistures_def
        spec_moisture_floor [OF w b spec_uniformity_factor_range(1) spec_uniformity_factor_range(2)])
  then have "line_moistures ?p = replicate (nat (num_lineas q)) 0"
    by (simp add: map_replicate_const length_py_range)
  then show "run_industrial_simulation ?p =
        Some \<lparr>linea = map (\<lambda>i. i + 1) (py_range (num_lineas q)),
              humedad_residual = replicate (nat (num_lineas q)) 0\<rparr>"
    using run_industrial_simulation_spec [OF dom(1,2)] by simp
next
  show "calculate_kpis (r\<lparr>tiempo_residencia := 0\<rparr>) df = Inl ZeroDivisionError"
    by (simp add: calculate_kpis_def)
next
  assume "valid_params r"
  then have "tiempo_residencia r \<noteq> 0" by (auto simp: valid_params_def)
  then show "\<exists>k. calculate_kpis r df = Inr k"
    by (simp add: calculate_kpis_def Let_def)
qed

theorem core_errors_witness:
  "valid_params reference_params \<and>
   run_industrial_simulation (reference_params\<lparr>peso_humedo := 40\<rparr>) =
     Some \<lparr>linea = [1, 2, 3, 4, 5, 6], humedad_residual = [0, 0, 0, 0, 0, 0]\<rparr> \<and>
   calculate_kpis (reference_params\<lparr>tiempo_residencia := 0\<rparr>)
     \<lparr>linea = [1, 2], humedad_residual = [8, 7]\<rparr> = Inl ZeroDivisionError \<and>
   (\<exists>k. calculate_kpis reference_params \<lparr>linea = [1, 2], humedad_residual = [8, 7]\<rparr> = Inr k)"
proof -
  have v: "valid_params reference_params"
    by (simp add: valid_params_def reference_params_def)
  show ?thesis
    using v core_errors [of reference_params 40 reference_params
        "\<lparr>linea = [1, 2], humedad_residual = [8, 7]\<rparr>"]
    by (simp add: reference_params_def py_range_def upto_rec1 eval_nat_numeral)
qed

end
